theory Spec2Isabelle
  imports Main
begin

section \<open>The RKE2 cluster setup script (setup_cluster.py)\<close>

text \<open>
  The script is a sequence of calls to external programs. The model makes the
  outside world explicit: a value of an arbitrary type \<open>'w\<close> is the state of
  everything outside the interpreter (file system, remote hosts, working directory,
  environment), and a record of functions says how each library call the script makes
  reads or changes it. Every definition below follows one method of the source, keeps
  its name and the order of its statements.

  Library calls can raise. The stage functions below give what a stage does when
  none of its prints and none of its captured commands raises; beyond that they have
  the two exceptions that depend on a path the script chooses, \<open>mkdir\<close> for the
  key's directory and \<open>chdir\<close> into \<open>cluster\<close>. \<open>verify_cluster\<close>, which
  ends both a full run and a \<open>--verify-only\<close> run, has every exception its calls
  can raise. No exception is caught by the script, so each ends the process with
  status 1. Statements about the exit status of a full or a \<open>--verify-only\<close> run
  say in their hypotheses that the console accepts every line and that every captured
  reply decodes. The constructor, which runs before \<open>main\<close> looks at its flags,
  is taken to return.

  Console output is kept as a list of events, one per \<open>print\<close> helper of the
  source; the ANSI colour codes, the rule lines of \<open>print_step\<close> and the blank
  lines are left out of the texts. External effects are logged in the same list, so
  the list is the complete observable behaviour of one run, in order.
\<close>

subsection \<open>The outside world\<close>

type_synonym cmd_result = "int \<times> string \<times> string"
  \<comment> \<open>exit status, standard output, standard error\<close>

text \<open>What a run does that can be seen from outside, one event per line of output or effect.\<close>

datatype event =
    Step string
  | Success string
  | Failure string
  | Warning string
  | Print string
  | Exec string int
  | Mkdir string
  | Chdir string
  | SetEnv string string
  | Sleep nat

record 'w os =
  exec :: "string \<Rightarrow> 'w \<Rightarrow> cmd_result \<times> 'w"
    \<comment> \<open>\<open>subprocess.run(command, shell=True, text=True)\<close>: the child's result and the world after it\<close>
  exc_text :: "string \<Rightarrow> int \<Rightarrow> string"
    \<comment> \<open>\<open>str(e)\<close> of the \<open>CalledProcessError\<close> for a command and its status\<close>
  expanduser :: "string \<Rightarrow> string"
    \<comment> \<open>\<open>str(Path(p).expanduser())\<close>\<close>
  file_exists :: "string \<Rightarrow> 'w \<Rightarrow> bool"
    \<comment> \<open>\<open>Path.exists\<close>\<close>
  dirname :: "string \<Rightarrow> string"
    \<comment> \<open>\<open>Path.parent\<close>\<close>
  mkdir :: "string \<Rightarrow> 'w \<Rightarrow> 'w option"
    \<comment> \<open>\<open>Path.mkdir(parents=True, exist_ok=True)\<close>; \<open>None\<close> when it raises\<close>
  chdir :: "string \<Rightarrow> 'w \<Rightarrow> 'w option"
    \<comment> \<open>\<open>os.chdir\<close>; \<open>None\<close> when it raises\<close>
  getcwd :: "'w \<Rightarrow> string option"
    \<comment> \<open>\<open>Path.cwd\<close>; \<open>None\<close> when it raises (the working directory is gone)\<close>
  decodes :: "string \<Rightarrow> bool"
    \<comment> \<open>whether captured bytes decode as text in the locale's encoding (\<open>text=True\<close>)\<close>
  can_print :: "event \<Rightarrow> bool"
    \<comment> \<open>whether the console's encoding can write the line; \<open>print\<close> raises when not\<close>
  joinpath :: "string \<Rightarrow> string \<Rightarrow> string"
    \<comment> \<open>the \<open>/\<close> operator of \<open>pathlib\<close>\<close>
  setenv :: "string \<Rightarrow> string \<Rightarrow> 'w \<Rightarrow> 'w"
    \<comment> \<open>assignment to \<open>os.environ\<close>\<close>
  sleep :: "nat \<Rightarrow> 'w \<Rightarrow> 'w"
    \<comment> \<open>\<open>time.sleep\<close>\<close>

record 'w state =
  world :: 'w
  trace :: "event list"

definition init_state :: "'w \<Rightarrow> 'w state" where
  "init_state w = \<lparr>world = w, trace = []\<rparr>"

definition emit :: "event \<Rightarrow> 'w state \<Rightarrow> 'w state" where
  "emit e s = s\<lparr>trace := trace s @ [e]\<rparr>"

text \<open>How the process ends when it does not return from \<open>main\<close>.\<close>

datatype abort = SysExit int | Uncaught string

fun exit_status :: "abort \<Rightarrow> int" where
  "exit_status (SysExit n) = n"
| "exit_status (Uncaught e) = 1"

subsection \<open>Strings\<close>

text \<open>
  Python's \<open>x in s\<close> on strings and \<open>s.lower()\<close>. Output is modelled as a list
  of 8-bit characters, and \<open>lower\<close> changes the ASCII capitals only.
\<close>

fun starts_with :: "string \<Rightarrow> string \<Rightarrow> bool" where
  "starts_with s [] = True"
| "starts_with [] (p # ps) = False"
| "starts_with (c # cs) (p # ps) = (c = p \<and> starts_with cs ps)"

fun contains :: "string \<Rightarrow> string \<Rightarrow> bool" where
  "contains [] sub = (sub = [])"
| "contains (c # cs) sub = (starts_with (c # cs) sub \<or> contains cs sub)"

definition lower_char :: "char \<Rightarrow> char" where
  "lower_char c =
     (case map_of (zip ''ABCDEFGHIJKLMNOPQRSTUVWXYZ'' ''abcdefghijklmnopqrstuvwxyz'') c of
        Some d \<Rightarrow> d
      | None \<Rightarrow> c)"

definition lower :: "string \<Rightarrow> string" where
  "lower s = map lower_char s"

subsection \<open>class ClusterSetup\<close>

record ClusterSetup =
  master_ip :: string
  worker_ips :: "string list"
  ssh_user :: string
  ssh_key_path :: string
  all_nodes :: "string list"

definition ClusterSetup_init ::
  "'w os \<Rightarrow> string \<Rightarrow> string list \<Rightarrow> string \<Rightarrow> string \<Rightarrow> ClusterSetup" where
  "ClusterSetup_init os m ws u k =
     \<lparr>master_ip = m, worker_ips = ws, ssh_user = u,
      ssh_key_path = expanduser os k, all_nodes = [m] @ ws\<rparr>"

definition print_step :: "string \<Rightarrow> 'w state \<Rightarrow> 'w state" where
  "print_step message s = emit (Step message) s"

definition print_success :: "string \<Rightarrow> 'w state \<Rightarrow> 'w state" where
  "print_success message s = emit (Success message) s"

definition print_error :: "string \<Rightarrow> 'w state \<Rightarrow> 'w state" where
  "print_error message s = emit (Failure message) s"

definition print_warning :: "string \<Rightarrow> 'w state \<Rightarrow> 'w state" where
  "print_warning message s = emit (Warning message) s"

definition print :: "string \<Rightarrow> 'w state \<Rightarrow> 'w state" where
  "print message s = emit (Print message) s"

text \<open>
  \<open>run_command\<close>: with \<open>check\<close> set, a non-zero status raises
  \<open>CalledProcessError\<close> inside \<open>subprocess.run\<close>; the handler prints two
  error lines and returns the status all the same. Output is returned only when it
  was captured.
\<close>

definition run_command ::
  "'w os \<Rightarrow> string \<Rightarrow> bool \<Rightarrow> bool \<Rightarrow> 'w state \<Rightarrow> cmd_result \<times> 'w state" where
  "run_command os command check capture_output s =
     (case exec os command (world s) of
        ((rc, out, err), w') \<Rightarrow>
          let s1 = emit (Exec command rc) (s\<lparr>world := w'\<rparr>);
              s2 = (if rc \<noteq> 0 \<and> check
                    then print_error
                           (''Error: '' @ (if capture_output then err else exc_text os command rc))
                           (print_error (''Command failed: '' @ command) s1)
                    else s1)
          in ((rc, if capture_output then out else [], if capture_output then err else []), s2))"

text \<open>The command line \<open>ssh_command\<close> builds in its local \<open>ssh_cmd\<close>.\<close>

definition ssh_cmd :: "ClusterSetup \<Rightarrow> string \<Rightarrow> string \<Rightarrow> string" where
  "ssh_cmd self host command =
     ''ssh -o StrictHostKeyChecking=no -i '' @ ssh_key_path self @ '' ''
     @ ssh_user self @ ''@'' @ host @ '' ''
     @ [CHR 0x27] @ command @ [CHR 0x27]"

definition ssh_command ::
  "'w os \<Rightarrow> ClusterSetup \<Rightarrow> string \<Rightarrow> string \<Rightarrow> bool \<Rightarrow> 'w state \<Rightarrow> cmd_result \<times> 'w state" where
  "ssh_command os self host command check s =
     run_command os (ssh_cmd self host command) check True s"

definition check_prerequisites :: "'w os \<Rightarrow> ClusterSetup \<Rightarrow> 'w state \<Rightarrow> bool \<times> 'w state" where
  "check_prerequisites os self s0 =
     (let s = print_step ''Checking Prerequisites'' s0;
          all_ok = True;
          ((returncode, _, _), s) = run_command os ''terraform version'' False True s;
          (all_ok, s) = (if returncode = 0
                         then (all_ok, print_success ''Terraform is installed'' s)
                         else (False, print_error ''Terraform is not installed'' s));
          ((returncode, _, _), s) = run_command os ''kubectl version --client'' False True s;
          s = (if returncode = 0
               then print_success ''kubectl is installed'' s
               else print_warning ''kubectl is not installed (optional, but recommended)'' s);
          (all_ok, s) = (if file_exists os (ssh_key_path self) (world s)
                         then (all_ok, print_success (''SSH key found at '' @ ssh_key_path self) s)
                         else (False, print_error (''SSH key not found at '' @ ssh_key_path self) s))
      in (all_ok, s))"

text \<open>
  \<open>generate_ssh_key\<close> returns nothing; it may end the process with
  \<open>sys.exit(1)\<close>, and \<open>mkdir\<close> may raise. The model returns how the process
  ended, if it did, beside the state.
\<close>

definition generate_ssh_key ::
  "'w os \<Rightarrow> ClusterSetup \<Rightarrow> 'w state \<Rightarrow> abort option \<times> 'w state" where
  \<open>generate_ssh_key os self s0 =
     (let s = print_step ''Generating SSH Key'' s0
      in if file_exists os (ssh_key_path self) (world s)
         then (None, print_warning (''SSH key already exists at '' @ ssh_key_path self) s)
         else (case mkdir os (dirname os (ssh_key_path self)) (world s) of
                 None \<Rightarrow> (Some (Uncaught ''OSError''), s)
               | Some w' \<Rightarrow>
                   let s = emit (Mkdir (dirname os (ssh_key_path self))) (s\<lparr>world := w'\<rparr>);
                       ((returncode, _, _), s) =
                          run_command os
                            (''ssh-keygen -t rsa -b 4096 -f '' @ ssh_key_path self @ '' -N ""'')
                            False False s
                   in if returncode = 0
                      then (None, print_success ''SSH key generated successfully'' s)
                      else (Some (SysExit 1), print_error ''Failed to generate SSH key'' s)))\<close>

text \<open>The body of the loop of \<open>copy_ssh_keys\<close>, for one node.\<close>

definition copy_ssh_keys_body :: "'w os \<Rightarrow> ClusterSetup \<Rightarrow> string \<Rightarrow> 'w state \<Rightarrow> 'w state" where
  "copy_ssh_keys_body os self node s0 =
     (let s = print (''Copying SSH key to '' @ node @ ''...'') s0;
          ((returncode, _, _), s) =
             run_command os
               (''ssh-copy-id -i '' @ ssh_key_path self @ '' '' @ ssh_user self @ ''@'' @ node)
               False False s
      in if returncode = 0
         then print_success (''SSH key copied to '' @ node) s
         else print_error (''Failed to copy SSH key to '' @ node) s)"

definition copy_ssh_keys :: "'w os \<Rightarrow> ClusterSetup \<Rightarrow> 'w state \<Rightarrow> 'w state" where
  "copy_ssh_keys os self s0 =
     (let s = print_step ''Copying SSH Keys to Nodes'' s0
      in fold (copy_ssh_keys_body os self) (all_nodes self) s)"

text \<open>
  The body of the loop of \<open>test_ssh_connections\<close>: it carries \<open>all_ok\<close> beside
  the state.
\<close>

definition test_ssh_connections_body ::
  "'w os \<Rightarrow> ClusterSetup \<Rightarrow> string \<Rightarrow> bool \<times> 'w state \<Rightarrow> bool \<times> 'w state" where
  "test_ssh_connections_body os self node acc =
     (let (all_ok, s) = acc;
          ((returncode, stdout, _), s) =
             ssh_command os self node (''echo 'Connection successful'' @ [CHR 0x27]) False s
      in if returncode = 0 \<and> contains stdout ''Connection successful''
         then (all_ok, print_success (''SSH connection to '' @ node @ '' successful'') s)
         else (False, print_error (''SSH connection to '' @ node @ '' failed'') s))"

definition test_ssh_connections ::
  "'w os \<Rightarrow> ClusterSetup \<Rightarrow> 'w state \<Rightarrow> bool \<times> 'w state" where
  "test_ssh_connections os self s0 =
     (let s = print_step ''Testing SSH Connections'' s0;
          all_ok = True
      in fold (test_ssh_connections_body os self) (all_nodes self) (all_ok, s))"

definition setup_sudoers_body :: "'w os \<Rightarrow> ClusterSetup \<Rightarrow> string \<Rightarrow> 'w state \<Rightarrow> 'w state" where
  \<open>setup_sudoers_body os self node s0 =
     (let s = print (''Configuring sudo on '' @ node @ ''...'') s0;
          cmd = ''echo "'' @ ssh_user self @ '' ALL=(ALL) NOPASSWD:ALL" | sudo tee /etc/sudoers.d/''
                @ ssh_user self;
          ((returncode, _, _), s) = ssh_command os self node cmd False s
      in if returncode = 0
         then (let (_, s) = ssh_command os self node
                              (''sudo chmod 0440 /etc/sudoers.d/'' @ ssh_user self) False s;
                   ((test_returncode, _, _), s) = ssh_command os self node ''sudo ls /root'' False s
               in if test_returncode = 0
                  then print_success (''Passwordless sudo configured on '' @ node) s
                  else print_error (''Sudo test failed on '' @ node) s)
         else print_error (''Failed to configure sudo on '' @ node) s)\<close>

definition setup_sudoers :: "'w os \<Rightarrow> ClusterSetup \<Rightarrow> 'w state \<Rightarrow> 'w state" where
  "setup_sudoers os self s0 =
     (let s = print_step ''Setting up Passwordless Sudo'' s0
      in fold (setup_sudoers_body os self) (all_nodes self) s)"

definition prepare_nodes_body :: "'w os \<Rightarrow> ClusterSetup \<Rightarrow> string \<Rightarrow> 'w state \<Rightarrow> 'w state" where
  "prepare_nodes_body os self node s0 =
     (let s = print (''Preparing '' @ node @ ''...'') s0;
          s = print ''  - Updating system...'' s;
          (_, s) = ssh_command os self node ''sudo apt-get update -qq'' False s;
          s = print ''  - Installing required packages...'' s;
          (_, s) = ssh_command os self node ''sudo apt-get install -y curl jq'' False s;
          s = print ''  - Disabling swap...'' s;
          (_, s) = ssh_command os self node ''sudo swapoff -a'' False s;
          (_, s) = ssh_command os self node ''sudo sed -i '/ swap / s/^/#/' /etc/fstab'' False s
      in print_success (''Node '' @ node @ '' prepared'') s)"

definition prepare_nodes :: "'w os \<Rightarrow> ClusterSetup \<Rightarrow> 'w state \<Rightarrow> 'w state" where
  "prepare_nodes os self s0 =
     (let s = print_step ''Preparing Nodes'' s0
      in fold (prepare_nodes_body os self) (all_nodes self) s)"

text \<open>
  The body shared by the two port loops of \<open>configure_firewall\<close>: one line of
  output and one \<open>ufw allow\<close> on the host, whose result is dropped.
\<close>

definition allow_port ::
  "'w os \<Rightarrow> ClusterSetup \<Rightarrow> string \<Rightarrow> string \<times> string \<Rightarrow> 'w state \<Rightarrow> 'w state" where
  "allow_port os self host pd s0 =
     (let (port, description) = pd;
          s = print (''  - Allowing '' @ port @ '' ('' @ description @ '')'') s0;
          (_, s) = ssh_command os self host (''sudo ufw allow '' @ port) False s
      in s)"

definition master_ports :: "(string \<times> string) list" where
  "master_ports =
     [(''6443/tcp'', ''Kubernetes API''),
      (''9345/tcp'', ''RKE2 supervisor API''),
      (''10250/tcp'', ''Kubelet''),
      (''2379:2380/tcp'', ''etcd'')]"

definition worker_ports :: "(string \<times> string) list" where
  "worker_ports =
     [(''10250/tcp'', ''Kubelet''),
      (''30000:32767/tcp'', ''NodePort services'')]"

definition configure_firewall_worker ::
  "'w os \<Rightarrow> ClusterSetup \<Rightarrow> string \<Rightarrow> 'w state \<Rightarrow> 'w state" where
  "configure_firewall_worker os self worker s0 =
     (let s = print (''Configuring firewall on '' @ worker @ ''...'') s0;
          s = fold (allow_port os self worker) worker_ports s
      in print_success (''Worker node '' @ worker @ '' firewall configured'') s)"

definition configure_firewall :: "'w os \<Rightarrow> ClusterSetup \<Rightarrow> 'w state \<Rightarrow> 'w state" where
  "configure_firewall os self s0 =
     (let s = print_step ''Configuring Firewall'' s0;
          ((returncode, stdout, _), s) =
             ssh_command os self (master_ip self) ''sudo ufw status'' False s
      in if contains (lower stdout) ''inactive''
         then print_warning ''UFW is not active, skipping firewall configuration'' s
         else (let s = print ''Configuring firewall on master node...'' s;
                   s = fold (allow_port os self (master_ip self)) master_ports s;
                   s = print_success ''Master node firewall configured'' s
               in fold (configure_firewall_worker os self) (worker_ips self) s))"

text \<open>
  The four Terraform stages and the teardown run their command with \<open>check\<close>
  left at its default, \<open>True\<close>, and leave the process on a non-zero status.
  \<open>terraform_init\<close> changes into the directory \<open>cluster\<close> first; when that
  raises, the exception is not caught.
\<close>

definition terraform_init ::
  "'w os \<Rightarrow> ClusterSetup \<Rightarrow> 'w state \<Rightarrow> abort option \<times> 'w state" where
  "terraform_init os self s0 =
     (let s = print_step ''Initializing Terraform'' s0
      in case chdir os ''cluster'' (world s) of
           None \<Rightarrow> (Some (Uncaught ''OSError''), s)
         | Some w' \<Rightarrow>
             let s = emit (Chdir ''cluster'') (s\<lparr>world := w'\<rparr>);
                 ((returncode, _, _), s) = run_command os ''terraform init'' True False s
             in if returncode = 0
                then (None, print_success ''Terraform initialized'' s)
                else (Some (SysExit 1), print_error ''Terraform initialization failed'' s))"

definition terraform_validate ::
  "'w os \<Rightarrow> ClusterSetup \<Rightarrow> 'w state \<Rightarrow> abort option \<times> 'w state" where
  "terraform_validate os self s0 =
     (let s = print_step ''Validating Terraform Configuration'' s0;
          ((returncode, _, _), s) = run_command os ''terraform validate'' True False s
      in if returncode = 0
         then (None, print_success ''Terraform configuration is valid'' s)
         else (Some (SysExit 1), print_error ''Terraform configuration is invalid'' s))"

definition terraform_plan ::
  "'w os \<Rightarrow> ClusterSetup \<Rightarrow> 'w state \<Rightarrow> abort option \<times> 'w state" where
  "terraform_plan os self s0 =
     (let s = print_step ''Running Terraform Plan'' s0;
          ((returncode, _, _), s) = run_command os ''terraform plan'' True False s
      in if returncode = 0
         then (None, print_success ''Terraform plan completed'' s)
         else (Some (SysExit 1), print_error ''Terraform plan failed'' s))"

definition terraform_apply ::
  "'w os \<Rightarrow> ClusterSetup \<Rightarrow> 'w state \<Rightarrow> abort option \<times> 'w state" where
  "terraform_apply os self s0 =
     (let s = print_step ''Applying Terraform Configuration'' s0;
          ((returncode, _, _), s) = run_command os ''terraform apply -auto-approve'' True False s
      in if returncode = 0
         then (None, print_success ''Terraform apply completed'' s)
         else (Some (SysExit 1), print_error ''Terraform apply failed'' s))"

text \<open>
  \<open>verify_cluster\<close> has no \<open>sys.exit\<close>, but three kinds of library call in it
  can raise, and nothing catches them, so each ends the process with status 1:
  \<^item> \<open>Path.cwd()\<close>, when the working directory is gone;
  \<^item> \<open>subprocess.run\<close> with \<open>text=True\<close> and captured output, when the bytes
    the command wrote do not decode (\<open>run_command\<close> catches only
    \<open>CalledProcessError\<close>);
  \<^item> \<open>print\<close>, when the console's encoding cannot write the line.
  \<open>run_command_or_raise\<close> is the call of \<open>run_command\<close> with the second of
  these: the command has run when the exception is raised, and \<open>run_command\<close>
  above is the call when it is not raised. \<open>printed\<close> is a call of one of the print
  helpers with the third. \<open>in_order\<close> runs statements one after the other and stops
  at the first that raises.
\<close>

definition run_command_raises :: "'w os \<Rightarrow> string \<Rightarrow> bool \<Rightarrow> 'w \<Rightarrow> bool" where
  "run_command_raises os command capture_output w =
     (capture_output \<and>
      \<not> (decodes os (fst (snd (fst (exec os command w))))
         \<and> decodes os (snd (snd (fst (exec os command w))))))"

definition run_command_or_raise ::
  "'w os \<Rightarrow> string \<Rightarrow> bool \<Rightarrow> bool \<Rightarrow> 'w state \<Rightarrow> (abort + cmd_result) \<times> 'w state" where
  "run_command_or_raise os command check capture_output s =
     (if run_command_raises os command capture_output (world s)
      then (Inl (Uncaught ''UnicodeDecodeError''),
            emit (Exec command (fst (fst (exec os command (world s)))))
              (s\<lparr>world := snd (exec os command (world s))\<rparr>))
      else (Inr (fst (run_command os command check capture_output s)),
            snd (run_command os command check capture_output s)))"

definition printed :: "'w os \<Rightarrow> event \<Rightarrow> 'w state \<Rightarrow> abort option \<times> 'w state" where
  "printed os e s =
     (if can_print os e then (None, emit e s) else (Some (Uncaught ''UnicodeEncodeError''), s))"

fun in_order ::
  "('w state \<Rightarrow> abort option \<times> 'w state) list \<Rightarrow> 'w state \<Rightarrow> abort option \<times> 'w state" where
  "in_order [] s = (None, s)"
| "in_order (f # fs) s =
     (case f s of
        (Some e, s') \<Rightarrow> (Some e, s')
      | (None, s') \<Rightarrow> in_order fs s')"

text \<open>The statements of \<open>verify_cluster\<close> that are more than one line of output.\<close>

definition export_kubeconfig :: "'w os \<Rightarrow> 'w state \<Rightarrow> abort option \<times> 'w state" where
  "export_kubeconfig os s =
     (case getcwd os (world s) of
        None \<Rightarrow> (Some (Uncaught ''FileNotFoundError''), s)
      | Some d \<Rightarrow>
          let kubeconfig_path = joinpath os d ''kubeconfig.yaml''
          in (None, emit (SetEnv ''KUBECONFIG'' kubeconfig_path)
                      (s\<lparr>world := setenv os ''KUBECONFIG'' kubeconfig_path (world s)\<rparr>)))"

definition wait_for_cluster :: "'w os \<Rightarrow> 'w state \<Rightarrow> abort option \<times> 'w state" where
  "wait_for_cluster os s = (None, emit (Sleep 30) (s\<lparr>world := sleep os 30 (world s)\<rparr>))"

text \<open>
  The two captured queries (nodes, pods) have the same shape: run the command with
  \<open>check=False\<close> and captured output; on status 0 print the output and a success
  line, otherwise an error line.
\<close>

definition check_query ::
  "'w os \<Rightarrow> string \<Rightarrow> string \<Rightarrow> string \<Rightarrow> 'w state \<Rightarrow> abort option \<times> 'w state" where
  "check_query os command good bad s0 =
     (case run_command_or_raise os command False True s0 of
        (Inl e, s) \<Rightarrow> (Some e, s)
      | (Inr (returncode, stdout, _), s) \<Rightarrow>
          if returncode = 0
          then in_order [printed os (Print stdout), printed os (Success good)] s
          else printed os (Failure bad) s)"

definition cluster_info :: "'w os \<Rightarrow> 'w state \<Rightarrow> abort option \<times> 'w state" where
  "cluster_info os s0 =
     (case run_command_or_raise os ''kubectl cluster-info'' False False s0 of
        (Inl e, s) \<Rightarrow> (Some e, s)
      | (Inr _, s) \<Rightarrow> (None, s))"

definition verify_cluster ::
  "'w os \<Rightarrow> ClusterSetup \<Rightarrow> 'w state \<Rightarrow> abort option \<times> 'w state" where
  "verify_cluster os self s0 =
     in_order
       [printed os (Step ''Verifying Cluster''),
        export_kubeconfig os,
        printed os (Print ''Waiting for cluster to be ready...''),
        wait_for_cluster os,
        printed os (Print ''Checking nodes...''),
        check_query os ''kubectl get nodes'' ''Nodes are accessible'' ''Failed to get nodes'',
        printed os (Print ''Checking pods...''),
        check_query os ''kubectl get pods -A'' ''Pods are accessible'' ''Failed to get pods'',
        printed os (Print ''Cluster info:''),
        cluster_info os]
       s0"

definition terraform_destroy ::
  "'w os \<Rightarrow> ClusterSetup \<Rightarrow> 'w state \<Rightarrow> abort option \<times> 'w state" where
  "terraform_destroy os self s0 =
     (let s = print_step ''Destroying Cluster'' s0;
          ((returncode, _, _), s) = run_command os ''terraform destroy -auto-approve'' True False s
      in if returncode = 0
         then (None, print_success ''Cluster destroyed'' s)
         else (Some (SysExit 1), print_error ''Failed to destroy cluster'' s))"

subsection \<open>main\<close>

text \<open>
  The namespace that \<open>argparse\<close> returns. \<open>main\<close> gives the exit status of the
  process and the final state: \<open>0\<close> when \<open>main\<close> returns, the argument of
  \<open>sys.exit\<close> when a stage calls it, \<open>1\<close> for an uncaught exception.
\<close>

record args =
  arg_master_ip :: string
  arg_worker_ips :: "string list"
  arg_ssh_user :: string
  arg_ssh_key :: string
  skip_prep :: bool
  skip_firewall :: bool
  destroy :: bool
  verify_only :: bool

definition main :: "'w os \<Rightarrow> args \<Rightarrow> 'w \<Rightarrow> int \<times> 'w state" where
  "main os a w =
     (let setup = ClusterSetup_init os (arg_master_ip a) (arg_worker_ips a) (arg_ssh_user a)
                    (arg_ssh_key a);
          s = init_state w
      in if destroy a
         then (case terraform_destroy os setup s of
                 (Some e, s) \<Rightarrow> (exit_status e, s)
               | (None, s) \<Rightarrow> (0, s))
         else if verify_only a
         then (case verify_cluster os setup s of
                 (Some e, s) \<Rightarrow> (exit_status e, s)
               | (None, s) \<Rightarrow> (0, s))
         else (case check_prerequisites os setup s of
                 (False, s) \<Rightarrow> (1, s)
               | (True, s) \<Rightarrow>
           (case generate_ssh_key os setup s of
                 (Some e, s) \<Rightarrow> (exit_status e, s)
               | (None, s) \<Rightarrow>
           (let s = copy_ssh_keys os setup s
            in case test_ssh_connections os setup s of
                 (False, s) \<Rightarrow> (1, s)
               | (True, s) \<Rightarrow>
           (let s = setup_sudoers os setup s;
                s = (if \<not> skip_prep a then prepare_nodes os setup s else s);
                s = (if \<not> skip_firewall a then configure_firewall os setup s else s)
            in case terraform_init os setup s of
                 (Some e, s) \<Rightarrow> (exit_status e, s)
               | (None, s) \<Rightarrow>
           (case terraform_validate os setup s of
                 (Some e, s) \<Rightarrow> (exit_status e, s)
               | (None, s) \<Rightarrow>
           (case terraform_plan os setup s of
                 (Some e, s) \<Rightarrow> (exit_status e, s)
               | (None, s) \<Rightarrow>
           (case terraform_apply os setup s of
                 (Some e, s) \<Rightarrow> (exit_status e, s)
               | (None, s) \<Rightarrow>
           (case verify_cluster os setup s of
                 (Some e, s) \<Rightarrow> (exit_status e, s)
               | (None, s) \<Rightarrow> (0, s))))))))))"

subsection \<open>Reading a run\<close>

text \<open>
  What a run did is read off its list of events: the stage headers printed by
  \<open>print_step\<close>, the commands handed to the shell, and all external effects
  (everything but console output).
\<close>

fun step_of :: "event \<Rightarrow> string list" where
  "step_of (Step m) = [m]"
| "step_of (Success m) = []"
| "step_of (Failure m) = []"
| "step_of (Warning m) = []"
| "step_of (Print m) = []"
| "step_of (Exec c rc) = []"
| "step_of (Mkdir d) = []"
| "step_of (Chdir d) = []"
| "step_of (SetEnv k v) = []"
| "step_of (Sleep n) = []"

definition steps :: "event list \<Rightarrow> string list" where
  "steps tr = concat (map step_of tr)"

fun command_of :: "event \<Rightarrow> string list" where
  "command_of (Step m) = []"
| "command_of (Success m) = []"
| "command_of (Failure m) = []"
| "command_of (Warning m) = []"
| "command_of (Print m) = []"
| "command_of (Exec c rc) = [c]"
| "command_of (Mkdir d) = []"
| "command_of (Chdir d) = []"
| "command_of (SetEnv k v) = []"
| "command_of (Sleep n) = []"

definition commands :: "event list \<Rightarrow> string list" where
  "commands tr = concat (map command_of tr)"

fun effect_of :: "event \<Rightarrow> event list" where
  "effect_of (Step m) = []"
| "effect_of (Success m) = []"
| "effect_of (Failure m) = []"
| "effect_of (Warning m) = []"
| "effect_of (Print m) = []"
| "effect_of (Exec c rc) = [Exec c rc]"
| "effect_of (Mkdir d) = [Mkdir d]"
| "effect_of (Chdir d) = [Chdir d]"
| "effect_of (SetEnv k v) = [SetEnv k v]"
| "effect_of (Sleep n) = [Sleep n]"

definition effects :: "event list \<Rightarrow> event list" where
  "effects tr = concat (map effect_of tr)"


text \<open>
  The connectivity probes by themselves: the results the shell gives when the echo
  command is run on each node in turn, starting from a world \<open>w\<close>, each paired with
  its node.
\<close>

definition probe_cmd :: "ClusterSetup \<Rightarrow> string \<Rightarrow> string" where
  "probe_cmd self node = ssh_cmd self node (''echo 'Connection successful'' @ [CHR 0x27])"

fun probes :: "'w os \<Rightarrow> ClusterSetup \<Rightarrow> string list \<Rightarrow> 'w \<Rightarrow> (string \<times> cmd_result) list" where
  "probes os self [] w = []"
| "probes os self (node # nodes) w =
     (node, fst (exec os (probe_cmd self node) w))
       # probes os self nodes (snd (exec os (probe_cmd self node) w))"

definition stdout_of :: "string \<times> cmd_result \<Rightarrow> string" where
  "stdout_of p = fst (snd (snd p))"

definition status_of :: "string \<times> cmd_result \<Rightarrow> int" where
  "status_of p = fst (snd p)"

text \<open>The \<open>ufw allow\<close> commands for a host and a port list, in order.\<close>

definition allow_cmds :: "ClusterSetup \<Rightarrow> string \<Rightarrow> (string \<times> string) list \<Rightarrow> string list" where
  "allow_cmds self host ports = map (\<lambda>pd. ssh_cmd self host (''sudo ufw allow '' @ fst pd)) ports"

subsection \<open>A simulated host\<close>

text \<open>
  A small concrete world on which the definitions can be run: a key file that is
  there or not, a project directory that is there or not, and a script of replies for
  particular command lines; every other command succeeds and prints the echo text.
\<close>

record sim =
  key_present :: bool
  cluster_dir :: bool
  script :: "(string \<times> cmd_result) list"
  cwd :: string
  environ :: "(string \<times> string) list"
  clock :: nat

definition sim_exec :: "string \<Rightarrow> sim \<Rightarrow> cmd_result \<times> sim" where
  "sim_exec c w =
     (case map_of (script w) c of
        Some r \<Rightarrow> r
      | None \<Rightarrow> (0, ''Connection successful'', []),
      w\<lparr>key_present := key_present w \<or> starts_with c ''ssh-keygen'', clock := clock w + 1\<rparr>)"

definition sim_os :: "sim os" where
  "sim_os =
     \<lparr>exec = sim_exec,
      exc_text = (\<lambda>c rc. ''non-zero exit status''),
      expanduser = (\<lambda>p. p),
      file_exists = (\<lambda>p w. key_present w),
      dirname = (\<lambda>p. case rev (drop 1 (dropWhile (\<lambda>c. c \<noteq> CHR ''/'') (rev p))) of
                        [] \<Rightarrow> ''/''
                      | d # ds \<Rightarrow> d # ds),
      mkdir = (\<lambda>d w. Some w),
      chdir = (\<lambda>d w. if cluster_dir w then Some (w\<lparr>cwd := cwd w @ ''/'' @ d\<rparr>) else None),
      getcwd = (\<lambda>w. Some (cwd w)),
      decodes = (\<lambda>b. CHR 0xFF \<notin> set b),
      can_print = (\<lambda>e. True),
      joinpath = (\<lambda>d f. d @ ''/'' @ f),
      setenv = (\<lambda>k v w. w\<lparr>environ := (k, v) # environ w\<rparr>),
      sleep = (\<lambda>n w. w\<lparr>clock := clock w + n\<rparr>)\<rparr>"

definition sim0 :: sim where
  "sim0 = \<lparr>key_present = True, cluster_dir = True, script = [], cwd = ''/srv'',
           environ = [], clock = 0\<rparr>"

definition setup0 :: ClusterSetup where
  "setup0 = ClusterSetup_init sim_os ''10.0.0.1'' [''10.0.0.2''] ''hkn'' ''/k''"

definition args0 :: args where
  "args0 = \<lparr>arg_master_ip = ''10.0.0.1'', arg_worker_ips = [''10.0.0.2''],
            arg_ssh_user = ''hkn'', arg_ssh_key = ''/k'',
            skip_prep = False, skip_firewall = False, destroy = False, verify_only = False\<rparr>"

definition sim_denied :: sim where
  "sim_denied = sim0\<lparr>script := [(probe_cmd setup0 ''10.0.0.2'', (0, ''Permission denied'', []))]\<rparr>"

definition sim_status :: sim where
  "sim_status = sim0\<lparr>script := [(probe_cmd setup0 ''10.0.0.2'', (255, ''Connection successful'', []))]\<rparr>"

definition sim_no_destroy :: sim where
  "sim_no_destroy =
     sim0\<lparr>script := [(''terraform destroy -auto-approve'', (1, [], ''Error: no state''))]\<rparr>"

definition sim_inactive :: sim where
  "sim_inactive =
     sim0\<lparr>script := [(ssh_cmd setup0 ''10.0.0.1'' ''sudo ufw status'', (0, ''Status: Inactive'', []))]\<rparr>"

definition sim_unreachable :: sim where
  "sim_unreachable =
     sim0\<lparr>script := [(ssh_cmd setup0 ''10.0.0.1'' ''sudo ufw status'',
                        (255, [], ''ssh: connect to host 10.0.0.1 port 22: Connection refused''))]\<rparr>"

text \<open>A host on which every command succeeds and nothing ever changes.\<close>

definition calm_os :: "unit os" where
  "calm_os =
     \<lparr>exec = (\<lambda>c w. ((0, ''Connection successful'', []), w)),
      exc_text = (\<lambda>c rc. ''non-zero exit status''),
      expanduser = (\<lambda>p. p),
      file_exists = (\<lambda>p w. True),
      dirname = (\<lambda>p. p),
      mkdir = (\<lambda>d w. Some w),
      chdir = (\<lambda>d w. Some w),
      getcwd = (\<lambda>w. Some ''/srv''),
      decodes = (\<lambda>b. True),
      can_print = (\<lambda>e. True),
      joinpath = (\<lambda>d f. d @ ''/'' @ f),
      setenv = (\<lambda>k v w. w),
      sleep = (\<lambda>n w. w)\<rparr>"

subsection \<open>Hosts on which no library call raises\<close>






definition keyless_os :: "unit os" where
  "keyless_os = calm_os\<lparr>file_exists := (\<lambda>p w. False)\<rparr>"

section \<open>Facts about the stages\<close>

lemma steps_append [simp]: "steps (a @ b) = steps a @ steps b"
  by (simp add: steps_def)

lemma commands_append [simp]: "commands (a @ b) = commands a @ commands b"
  by (simp add: commands_def)

lemma effects_append [simp]: "effects (a @ b) = effects a @ effects b"
  by (simp add: effects_def)

lemma steps_Nil [simp]: "steps [] = []"
  by (simp add: steps_def)
lemma steps_Cons [simp]: "steps (e # tr) = step_of e @ steps tr"
  by (simp add: steps_def)
lemma commands_Nil [simp]: "commands [] = []"
  by (simp add: commands_def)
lemma commands_Cons [simp]: "commands (e # tr) = command_of e @ commands tr"
  by (simp add: commands_def)
lemma effects_Nil [simp]: "effects [] = []"
  by (simp add: effects_def)
lemma effects_Cons [simp]: "effects (e # tr) = effect_of e @ effects tr"
  by (simp add: effects_def)

lemma world_emit [simp]: "world (emit e s) = world s"
  by (simp add: emit_def)

lemma trace_emit [simp]: "trace (emit e s) = trace s @ [e]"
  by (simp add: emit_def)

lemmas print_defs = print_step_def print_success_def print_error_def print_warning_def print_def

lemma run_command_status:
  "fst (fst (run_command os c chk cap s)) = fst (fst (exec os c (world s)))"
  by (simp add: run_command_def Let_def split: prod.splits)

lemma run_command_stdout:
  "fst (snd (fst (run_command os c chk True s))) = fst (snd (fst (exec os c (world s))))"
  by (simp add: run_command_def Let_def split: prod.splits)

lemma run_command_world:
  "world (snd (run_command os c chk cap s)) = snd (exec os c (world s))"
  by (simp add: run_command_def Let_def print_defs split: prod.splits)

lemma run_command_steps:
  "steps (trace (snd (run_command os c chk cap s))) = steps (trace s)"
  by (simp add: run_command_def Let_def print_defs split: prod.splits)

lemma run_command_commands:
  "commands (trace (snd (run_command os c chk cap s))) = commands (trace s) @ [c]"
  by (simp add: run_command_def Let_def print_defs split: prod.splits)

lemma run_command_effects:
  "effects (trace (snd (run_command os c chk cap s)))
     = effects (trace s) @ [Exec c (fst (fst (exec os c (world s))))]"
  by (simp add: run_command_def Let_def print_defs split: prod.splits)

lemma world_print [simp]:
  "world (print_step m s) = world s" "world (print_success m s) = world s"
  "world (print_error m s) = world s" "world (print_warning m s) = world s"
  "world (print m s) = world s"
  by (simp_all add: print_defs)

lemma trace_print [simp]:
  "trace (print_step m s) = trace s @ [Step m]" "trace (print_success m s) = trace s @ [Success m]"
  "trace (print_error m s) = trace s @ [Failure m]" "trace (print_warning m s) = trace s @ [Warning m]"
  "trace (print m s) = trace s @ [Print m]"
  by (simp_all add: print_defs)

lemma check_prerequisites_result:
  "fst (check_prerequisites os self s) =
     (fst (fst (exec os ''terraform version'' (world s))) = 0
      \<and> file_exists os (ssh_key_path self)
           (snd (exec os ''kubectl version --client'' (snd (exec os ''terraform version'' (world s))))))"
  by (simp add: check_prerequisites_def Let_def case_prod_beta run_command_status run_command_world)



lemma generate_ssh_key_existing:
  "file_exists os (ssh_key_path self) (world s) \<Longrightarrow>
   generate_ssh_key os self s =
     (None, s\<lparr>trace := trace s @ [Step ''Generating SSH Key'',
                 Warning (''SSH key already exists at '' @ ssh_key_path self)]\<rparr>)"
  by (simp add: generate_ssh_key_def Let_def print_defs emit_def)


lemma test_body_fold:
  "fst (fold (test_ssh_connections_body os self) nodes (ok, s)) =
     (ok \<and> list_all (\<lambda>p. status_of p = 0 \<and> contains (stdout_of p) ''Connection successful'')
             (probes os self nodes (world s)))"
proof (induction nodes arbitrary: ok s)
  case Nil
  then show ?case by simp
next
  case (Cons n ns)
  obtain ok' s' where step: "test_ssh_connections_body os self n (ok, s) = (ok', s')"
    by (cases "test_ssh_connections_body os self n (ok, s)")
  have w: "world s' = snd (exec os (probe_cmd self n) (world s))"
    using step
    by (auto simp add: test_ssh_connections_body_def ssh_command_def probe_cmd_def Let_def
          case_prod_beta run_command_world split: if_splits)
  have k: "ok' = (ok \<and> status_of (n, fst (exec os (probe_cmd self n) (world s))) = 0
                 \<and> contains (stdout_of (n, fst (exec os (probe_cmd self n) (world s)))) ''Connection successful'')"
    using step
    by (auto simp add: test_ssh_connections_body_def ssh_command_def probe_cmd_def Let_def
          case_prod_beta run_command_status run_command_stdout status_of_def stdout_of_def
          split: if_splits)
  show ?case
    by (simp add: step Cons.IH w k)
qed

lemma test_ssh_connections_result:
  "fst (test_ssh_connections os self s) =
     list_all (\<lambda>p. status_of p = 0 \<and> contains (stdout_of p) ''Connection successful'')
       (probes os self (all_nodes self) (world s))"
  by (simp add: test_ssh_connections_def Let_def test_body_fold)

lemma probes_nodes: "map fst (probes os self nodes w) = nodes"
  by (induction nodes arbitrary: w) simp_all

lemma ssh_command_status:
  "fst (fst (ssh_command os self h c chk s)) = fst (fst (exec os (ssh_cmd self h c) (world s)))"
  by (simp add: ssh_command_def run_command_status)

lemma ssh_command_stdout:
  "fst (snd (fst (ssh_command os self h c chk s))) = fst (snd (fst (exec os (ssh_cmd self h c) (world s))))"
  by (simp add: ssh_command_def run_command_stdout)

lemma ssh_command_world:
  "world (snd (ssh_command os self h c chk s)) = snd (exec os (ssh_cmd self h c) (world s))"
  by (simp add: ssh_command_def run_command_world)


lemma ssh_command_commands:
  "commands (trace (snd (ssh_command os self h c chk s))) = commands (trace s) @ [ssh_cmd self h c]"
  by (simp add: ssh_command_def run_command_commands)














lemma terraform_destroy_steps:
  "steps (trace (snd (terraform_destroy os self s))) = steps (trace s) @ [''Destroying Cluster'']"
  by (simp add: terraform_destroy_def Let_def case_prod_beta run_command_steps)






lemma init_state_simps [simp]: "trace (init_state w) = []" "world (init_state w) = w"
  by (simp_all add: init_state_def)



lemmas sim_defs = sim_os_def sim_exec_def sim0_def args0_def setup0_def ClusterSetup_init_def


section \<open>Properties\<close>

text \<open>
  C8. For every leader address and every list of worker addresses, empty or not, the
  constructor's \<open>all_nodes\<close> is the leader followed by the workers in their order;
  it has one entry more than the worker list; and nothing is removed: every address
  occurs once more often than it does among the workers if it is the leader, so a
  worker equal to the leader is listed twice.
\<close>

theorem all_nodes_leader_first:
  "all_nodes (ClusterSetup_init os m ws u k) = m # ws
   \<and> length (all_nodes (ClusterSetup_init os m ws u k)) = length ws + 1
   \<and> count_list (all_nodes (ClusterSetup_init os m ws u k)) m = count_list ws m + 1
   \<and> all_nodes (ClusterSetup_init os m (m # ws) u k) = m # m # ws"
  by (simp add: ClusterSetup_init_def)

text \<open>
  C3. The prerequisite check returns false if and only if the \<open>terraform version\<close>
  probe has a non-zero status or the key file does not exist (when it is looked for,
  after both probes). The status of the \<open>kubectl\<close> probe does not occur in the
  result: a failing \<open>kubectl\<close> alone never makes it false.
\<close>

theorem check_prerequisites_false_iff:
  "(\<not> fst (check_prerequisites os self s)) =
     (fst (fst (exec os ''terraform version'' (world s))) \<noteq> 0
      \<or> \<not> file_exists os (ssh_key_path self)
            (snd (exec os ''kubectl version --client''
                   (snd (exec os ''terraform version'' (world s))))))"
  by (simp add: check_prerequisites_result)

theorem check_prerequisites_false_iff_witness:
  "fst (fst (exec sim_os ''kubectl version --client''
          (sim0\<lparr>script := [(''kubectl version --client'', (127, [], ''not found''))]\<rparr>))) = 127
   \<and> fst (check_prerequisites sim_os setup0
          (init_state (sim0\<lparr>script := [(''kubectl version --client'', (127, [], ''not found''))]\<rparr>)))"
  using check_prerequisites_false_iff
    [of sim_os setup0 "init_state (sim0\<lparr>script := [(''kubectl version --client'', (127, [], ''not found''))]\<rparr>)"]
  by (simp add: sim_defs)

text \<open>
  C7. When the key file exists, \<open>generate_ssh_key\<close> prints its header and the
  warning, runs no command, has no external effect and leaves the world (and so the
  key file) as it was. Called a second time it does the same: after two calls the world
  is still the initial one, no command has been run, and the warning has been printed
  twice.
\<close>

theorem generate_ssh_key_idempotent:
  assumes "file_exists os (ssh_key_path self) (world s)"
  shows "generate_ssh_key os self s =
           (None, s\<lparr>trace := trace s @ [Step ''Generating SSH Key'',
                       Warning (''SSH key already exists at '' @ ssh_key_path self)]\<rparr>)
       \<and> generate_ssh_key os self (snd (generate_ssh_key os self s)) =
           (None, s\<lparr>trace := trace s @ [Step ''Generating SSH Key'',
                       Warning (''SSH key already exists at '' @ ssh_key_path self),
                       Step ''Generating SSH Key'',
                       Warning (''SSH key already exists at '' @ ssh_key_path self)]\<rparr>)
       \<and> world (snd (generate_ssh_key os self (snd (generate_ssh_key os self s)))) = world s
       \<and> commands (trace (snd (generate_ssh_key os self (snd (generate_ssh_key os self s)))))
           = commands (trace s)
       \<and> effects (trace (snd (generate_ssh_key os self (snd (generate_ssh_key os self s)))))
           = effects (trace s)"
proof -
  define wn where "wn = Warning (''SSH key already exists at '' @ ssh_key_path self)"
  define s1 where "s1 = s\<lparr>trace := trace s @ [Step ''Generating SSH Key'', wn]\<rparr>"
  define s2 where "s2 = s1\<lparr>trace := trace s1 @ [Step ''Generating SSH Key'', wn]\<rparr>"
  have one: "generate_ssh_key os self s = (None, s1)"
    using generate_ssh_key_existing [OF assms] by (simp add: s1_def wn_def)
  have "file_exists os (ssh_key_path self) (world s1)"
    using assms by (simp add: s1_def)
  then have two: "generate_ssh_key os self s1 = (None, s2)"
    using generate_ssh_key_existing [of os self s1] by (simp add: s2_def wn_def)
  have s1: "s1 = s\<lparr>trace := trace s @ [Step ''Generating SSH Key'',
                       Warning (''SSH key already exists at '' @ ssh_key_path self)]\<rparr>"
    by (simp add: s1_def wn_def)
  have s2: "s2 = s\<lparr>trace := trace s @ [Step ''Generating SSH Key'',
                       Warning (''SSH key already exists at '' @ ssh_key_path self),
                       Step ''Generating SSH Key'',
                       Warning (''SSH key already exists at '' @ ssh_key_path self)]\<rparr>"
    by (simp add: s2_def s1_def wn_def)
  have w2: "world s2 = world s" by (simp add: s2_def s1_def)
  have c2: "commands (trace s2) = commands (trace s)" by (simp add: s2_def s1_def wn_def)
  have e2: "effects (trace s2) = effects (trace s)" by (simp add: s2_def s1_def wn_def)
  show ?thesis
    unfolding one snd_conv two using s1 s2 w2 c2 e2 by simp
qed

theorem generate_ssh_key_idempotent_witness:
  "file_exists sim_os (ssh_key_path setup0) (world (init_state sim0))
   \<and> fst (generate_ssh_key sim_os setup0 (snd (generate_ssh_key sim_os setup0 (init_state sim0)))) = None
   \<and> world (snd (generate_ssh_key sim_os setup0 (snd (generate_ssh_key sim_os setup0 (init_state sim0))))) = sim0
   \<and> commands (trace (snd (generate_ssh_key sim_os setup0 (snd (generate_ssh_key sim_os setup0 (init_state sim0)))))) = []"
proof -
  have h: "file_exists sim_os (ssh_key_path setup0) (world (init_state sim0))"
    by (simp add: sim_defs)
  note t = generate_ssh_key_idempotent [OF h]
  show ?thesis
    using h t [THEN conjunct2, THEN conjunct1] t [THEN conjunct2, THEN conjunct2]
    by simp
qed

lemma list_all_probes:
  "list_all P (probes os self nodes w) = (\<forall>p \<in> set (probes os self nodes w). P p)"
  by (simp add: list_all_iff)

text \<open>
  C2. Connectivity verification returns true only if the text
  \<open>Connection successful\<close> occurs in the captured output of the probe of every
  host in \<open>all_nodes\<close> (there is one probe per entry of \<open>all_nodes\<close>, in order);
  if the output of one host does not contain it, the result is false. The result is the
  conjunction, over the hosts, of the check made for each host.
\<close>

theorem connectivity_requires_token:
  "(fst (test_ssh_connections os self s) \<longrightarrow>
      (\<forall>p \<in> set (probes os self (all_nodes self) (world s)).
         contains (stdout_of p) ''Connection successful''))
   \<and> ((\<exists>p \<in> set (probes os self (all_nodes self) (world s)).
         \<not> contains (stdout_of p) ''Connection successful'')
       \<longrightarrow> \<not> fst (test_ssh_connections os self s))
   \<and> map fst (probes os self (all_nodes self) (world s)) = all_nodes self
   \<and> fst (test_ssh_connections os self s) =
       list_all (\<lambda>p. status_of p = 0 \<and> contains (stdout_of p) ''Connection successful'')
         (probes os self (all_nodes self) (world s))"
  by (auto simp add: test_ssh_connections_result list_all_iff probes_nodes)

lemmas probe_defs = probe_cmd_def ssh_cmd_def status_of_def stdout_of_def

theorem connectivity_requires_token_witness:
  "fst (test_ssh_connections sim_os setup0 (init_state sim0))
   \<and> stdout_of (probes sim_os setup0 (all_nodes setup0) (world (init_state sim_denied)) ! 1)
       = ''Permission denied''
   \<and> \<not> fst (test_ssh_connections sim_os setup0 (init_state sim_denied))"
proof -
  have a: "fst (test_ssh_connections sim_os setup0 (init_state sim0))"
    using connectivity_requires_token [of sim_os setup0 "init_state sim0"]
    by (simp add: sim_defs probe_defs)
  have b: "stdout_of (probes sim_os setup0 (all_nodes setup0) (world (init_state sim_denied)) ! 1)
       = ''Permission denied''"
    by (simp add: sim_defs probe_defs sim_denied_def)
  have c: "\<not> fst (test_ssh_connections sim_os setup0 (init_state sim_denied))"
    using connectivity_requires_token [of sim_os setup0 "init_state sim_denied"]
    by (simp add: sim_defs probe_defs sim_denied_def)
  show ?thesis using a b c by simp
qed

text \<open>
  C10. Connectivity verification counts a host as reached only when its probe exits
  with status 0 and its captured output contains \<open>Connection successful\<close>: the
  result is true exactly when both hold for every host, so a host whose output contains
  the text but whose command exits with a non-zero status makes the result false.
\<close>

theorem connectivity_requires_exit_zero:
  "fst (test_ssh_connections os self s) =
     (\<forall>p \<in> set (probes os self (all_nodes self) (world s)).
        status_of p = 0 \<and> contains (stdout_of p) ''Connection successful'')
   \<and> ((\<exists>p \<in> set (probes os self (all_nodes self) (world s)).
         contains (stdout_of p) ''Connection successful'' \<and> status_of p \<noteq> 0)
       \<longrightarrow> \<not> fst (test_ssh_connections os self s))"
  by (auto simp add: test_ssh_connections_result list_all_iff)

theorem connectivity_requires_exit_zero_witness:
  "contains (stdout_of (probes sim_os setup0 (all_nodes setup0) (world (init_state sim_status)) ! 1))
      ''Connection successful''
   \<and> status_of (probes sim_os setup0 (all_nodes setup0) (world (init_state sim_status)) ! 1) = 255
   \<and> \<not> fst (test_ssh_connections sim_os setup0 (init_state sim_status))"
proof -
  have b: "probes sim_os setup0 (all_nodes setup0) (world (init_state sim_status)) ! 1
             = (''10.0.0.2'', 255, ''Connection successful'', [])"
    by (simp add: sim_defs probe_defs sim_status_def)
  have m: "probes sim_os setup0 (all_nodes setup0) (world (init_state sim_status)) ! 1
             \<in> set (probes sim_os setup0 (all_nodes setup0) (world (init_state sim_status)))"
    by (rule nth_mem) (simp add: sim_defs)
  have c: "\<not> fst (test_ssh_connections sim_os setup0 (init_state sim_status))"
  proof
    assume "fst (test_ssh_connections sim_os setup0 (init_state sim_status))"
    then have "\<forall>p \<in> set (probes sim_os setup0 (all_nodes setup0) (world (init_state sim_status))).
        status_of p = 0 \<and> contains (stdout_of p) ''Connection successful''"
      using connectivity_requires_exit_zero [of sim_os setup0 "init_state sim_status", THEN conjunct1]
      by simp
    from bspec [OF this m] show False
      unfolding b by (simp add: probe_defs)
  qed
  show ?thesis using c unfolding b by (simp add: probe_defs)
qed

lemma terraform_destroy_effects:
  "effects (trace (snd (terraform_destroy os self s))) =
     effects (trace s) @ [Exec ''terraform destroy -auto-approve''
                            (fst (fst (exec os ''terraform destroy -auto-approve'' (world s))))]"
  by (simp add: terraform_destroy_def Let_def case_prod_beta run_command_effects)

lemma terraform_destroy_world:
  "world (snd (terraform_destroy os self s)) =
     snd (exec os ''terraform destroy -auto-approve'' (world s))"
  by (simp add: terraform_destroy_def Let_def case_prod_beta run_command_world)

lemma terraform_destroy_result:
  "fst (terraform_destroy os self s) =
     (if fst (fst (exec os ''terraform destroy -auto-approve'' (world s))) = 0
      then None else Some (SysExit 1))"
  by (simp add: terraform_destroy_def Let_def case_prod_beta run_command_status)

lemma main_destroy:
  assumes "destroy a"
  shows "snd (main os a w) =
           snd (terraform_destroy os
                 (ClusterSetup_init os (arg_master_ip a) (arg_worker_ips a) (arg_ssh_user a)
                    (arg_ssh_key a)) (init_state w))"
    and "fst (main os a w) =
           (if fst (fst (exec os ''terraform destroy -auto-approve'' w)) = 0 then 0 else 1)"
  using assms
    terraform_destroy_result [of os "ClusterSetup_init os (arg_master_ip a) (arg_worker_ips a)
       (arg_ssh_user a) (arg_ssh_key a)" "init_state w"]
  by (auto simp add: main_def Let_def split: prod.splits option.splits if_splits)

text \<open>
  C5. With \<open>--destroy\<close>, whatever the other flags, \<open>main\<close> runs the teardown
  stage and nothing else: the only stage header is the teardown's, the only external
  effect of the whole run is the one command \<open>terraform destroy -auto-approve\<close>,
  and the process exits 0 when that command exits 0 and exits 1 otherwise.
\<close>

theorem main_destroy_only:
  assumes "destroy a"
  shows "steps (trace (snd (main os a w))) = [''Destroying Cluster'']
       \<and> effects (trace (snd (main os a w))) =
           [Exec ''terraform destroy -auto-approve''
              (fst (fst (exec os ''terraform destroy -auto-approve'' w)))]
       \<and> world (snd (main os a w)) = snd (exec os ''terraform destroy -auto-approve'' w)
       \<and> fst (main os a w) =
           (if fst (fst (exec os ''terraform destroy -auto-approve'' w)) = 0 then 0 else 1)"
  by (simp add: main_destroy [OF assms] terraform_destroy_steps terraform_destroy_effects
        terraform_destroy_world)

theorem main_destroy_only_witness:
  "destroy (args0\<lparr>destroy := True\<rparr>)
   \<and> fst (main sim_os (args0\<lparr>destroy := True\<rparr>) sim0) = 0
   \<and> fst (main sim_os (args0\<lparr>destroy := True\<rparr>) sim_no_destroy) = 1
   \<and> effects (trace (snd (main sim_os (args0\<lparr>destroy := True\<rparr>) sim_no_destroy))) =
        [Exec ''terraform destroy -auto-approve'' 1]"
proof -
  have h: "destroy (args0\<lparr>destroy := True\<rparr>)" by simp
  show ?thesis
    using h main_destroy_only [OF h, of sim_os sim0] main_destroy_only [OF h, of sim_os sim_no_destroy]
    by (simp add: sim_defs sim_no_destroy_def)
qed

lemma starts_with_iff: "starts_with s p = (\<exists>t. s = p @ t)"
  by (induction s p rule: starts_with.induct) auto

lemma contains_iff: "contains s sub = (\<exists>pre post. s = pre @ sub @ post)"
proof (induction s)
  case Nil
  show ?case by auto
next
  case (Cons c cs)
  have "(\<exists>pre post. c # cs = pre @ sub @ post) =
        ((\<exists>post. c # cs = sub @ post) \<or> (\<exists>pre post. cs = pre @ sub @ post))"
  proof
    assume "\<exists>pre post. c # cs = pre @ sub @ post"
    then obtain pre post where e: "c # cs = pre @ sub @ post" by blast
    show "(\<exists>post. c # cs = sub @ post) \<or> (\<exists>pre post. cs = pre @ sub @ post)"
    proof (cases pre)
      case Nil
      with e show ?thesis by auto
    next
      case (Cons x xs)
      with e have "cs = xs @ sub @ post" by simp
      then show ?thesis by blast
    qed
  next
    assume "(\<exists>post. c # cs = sub @ post) \<or> (\<exists>pre post. cs = pre @ sub @ post)"
    then show "\<exists>pre post. c # cs = pre @ sub @ post"
    proof
      assume "\<exists>post. c # cs = sub @ post"
      then obtain post where "c # cs = [] @ sub @ post" by auto
      then show ?thesis by blast
    next
      assume "\<exists>pre post. cs = pre @ sub @ post"
      then obtain pre post where "cs = pre @ sub @ post" by blast
      then have "c # cs = (c # pre) @ sub @ post" by simp
      then show ?thesis by blast
    qed
  qed
  then show ?case by (simp add: Cons.IH starts_with_iff)
qed

lemma contains_lower:
  assumes "out = pre @ mid @ post" and "lower mid = sub"
  shows "contains (lower out) sub"
proof -
  have "lower out = lower pre @ sub @ lower post"
    using assms by (simp add: lower_def)
  then show ?thesis unfolding contains_iff by blast
qed

lemma allow_port_commands:
  "commands (trace (fold (allow_port os self h) ports s)) =
     commands (trace s) @ allow_cmds self h ports"
proof (induction ports arbitrary: s)
  case Nil
  show ?case by (simp add: allow_cmds_def)
next
  case (Cons pd ports)
  have "commands (trace (allow_port os self h pd s)) =
          commands (trace s) @ [ssh_cmd self h (''sudo ufw allow '' @ fst pd)]"
    by (simp add: allow_port_def Let_def case_prod_beta ssh_command_commands)
  then show ?case using Cons.IH [of "allow_port os self h pd s"]
    by (simp add: allow_cmds_def)
qed

lemma configure_firewall_worker_commands:
  "commands (trace (fold (configure_firewall_worker os self) workers s)) =
     commands (trace s) @ concat (map (\<lambda>wk. allow_cmds self wk worker_ports) workers)"
proof (induction workers arbitrary: s)
  case Nil
  show ?case by simp
next
  case (Cons wk workers)
  have "commands (trace (configure_firewall_worker os self wk s)) =
          commands (trace s) @ allow_cmds self wk worker_ports"
    by (simp add: configure_firewall_worker_def Let_def allow_port_commands)
  then show ?case using Cons.IH [of "configure_firewall_worker os self wk s"]
    by simp
qed

text \<open>
  C4. If the output of the \<open>ufw status\<close> probe on the leader contains, anywhere, a
  part that is \<open>inactive\<close> up to the case of its letters, the firewall stage prints
  its header, runs the probe, prints the warning and returns: the probe is the only
  command it runs, so no \<open>ufw allow\<close> goes to the leader or to any worker.
\<close>

theorem firewall_skipped_when_inactive:
  assumes "fst (snd (fst (exec os (ssh_cmd self (master_ip self) ''sudo ufw status'') (world s))))
             = pre @ mid @ post"
      and "lower mid = ''inactive''"
  shows "trace (configure_firewall os self s) =
           trace s @
           [Step ''Configuring Firewall'',
            Exec (ssh_cmd self (master_ip self) ''sudo ufw status'')
              (fst (fst (exec os (ssh_cmd self (master_ip self) ''sudo ufw status'') (world s)))),
            Warning ''UFW is not active, skipping firewall configuration'']
       \<and> commands (trace (configure_firewall os self s)) =
           commands (trace s) @ [ssh_cmd self (master_ip self) ''sudo ufw status'']
       \<and> world (configure_firewall os self s) =
           snd (exec os (ssh_cmd self (master_ip self) ''sudo ufw status'') (world s))"
proof -
  have c: "contains (lower (fst (snd (fst (ssh_command os self (master_ip self) ''sudo ufw status'' False
              (print_step ''Configuring Firewall'' s)))))) ''inactive''"
    using contains_lower [OF assms] by (simp add: ssh_command_stdout)
  have t: "trace (snd (ssh_command os self (master_ip self) ''sudo ufw status'' False
              (print_step ''Configuring Firewall'' s))) =
           trace s @ [Step ''Configuring Firewall'',
            Exec (ssh_cmd self (master_ip self) ''sudo ufw status'')
              (fst (fst (exec os (ssh_cmd self (master_ip self) ''sudo ufw status'') (world s))))]"
    by (simp add: ssh_command_def run_command_def Let_def case_prod_beta)
  have e: "configure_firewall os self s =
           print_warning ''UFW is not active, skipping firewall configuration''
             (snd (ssh_command os self (master_ip self) ''sudo ufw status'' False
                (print_step ''Configuring Firewall'' s)))"
    using c by (simp add: configure_firewall_def Let_def case_prod_beta)
  show ?thesis
    unfolding e by (simp add: t ssh_command_world)
qed

theorem firewall_skipped_when_inactive_witness:
  "fst (snd (fst (exec sim_os (ssh_cmd setup0 (master_ip setup0) ''sudo ufw status'')
                   (world (init_state sim_inactive))))) = ''Status: '' @ ''Inactive'' @ []
   \<and> lower ''Inactive'' = ''inactive''
   \<and> commands (trace (configure_firewall sim_os setup0 (init_state sim_inactive))) =
        [ssh_cmd setup0 (master_ip setup0) ''sudo ufw status'']"
proof -
  have h1: "fst (snd (fst (exec sim_os (ssh_cmd setup0 (master_ip setup0) ''sudo ufw status'')
                   (world (init_state sim_inactive))))) = ''Status: '' @ ''Inactive'' @ []"
    by (simp add: sim_defs sim_inactive_def ssh_cmd_def)
  have h2: "lower ''Inactive'' = ''inactive''"
    by (simp add: lower_def lower_char_def)
  show ?thesis
    using h1 h2 firewall_skipped_when_inactive [OF h1 h2, THEN conjunct2, THEN conjunct1]
    by simp
qed

text \<open>
  C9. If the output of the probe does not contain \<open>inactive\<close> (in lower case after
  \<open>lower\<close>), whatever the status of the probe, the stage does not skip: after the
  probe it runs the four \<open>ufw allow\<close> commands on the leader and then the two on
  each worker, in order. An empty output, as of a probe that could not connect, is such
  an output.
\<close>

theorem firewall_configured_when_probe_silent:
  assumes "\<not> contains (lower (fst (snd (fst
              (exec os (ssh_cmd self (master_ip self) ''sudo ufw status'') (world s)))))) ''inactive''"
  shows "commands (trace (configure_firewall os self s)) =
           commands (trace s)
           @ [ssh_cmd self (master_ip self) ''sudo ufw status'']
           @ allow_cmds self (master_ip self) master_ports
           @ concat (map (\<lambda>wk. allow_cmds self wk worker_ports) (worker_ips self))
       \<and> length (allow_cmds self (master_ip self) master_ports) = 4
       \<and> length (concat (map (\<lambda>wk. allow_cmds self wk worker_ports) (worker_ips self)))
           = 2 * length (worker_ips self)
       \<and> \<not> contains (lower []) ''inactive''"
proof -
  have c: "\<not> contains (lower (fst (snd (fst (ssh_command os self (master_ip self) ''sudo ufw status'' False
              (print_step ''Configuring Firewall'' s)))))) ''inactive''"
    using assms by (simp add: ssh_command_stdout)
  have a: "commands (trace (configure_firewall os self s)) =
           commands (trace s)
           @ [ssh_cmd self (master_ip self) ''sudo ufw status'']
           @ allow_cmds self (master_ip self) master_ports
           @ concat (map (\<lambda>wk. allow_cmds self wk worker_ports) (worker_ips self))"
    using c
    by (simp add: configure_firewall_def Let_def case_prod_beta configure_firewall_worker_commands
          allow_port_commands ssh_command_commands)
  have b: "length (concat (map (\<lambda>wk. allow_cmds self wk worker_ports) ws)) = 2 * length ws" for ws
    by (induction ws) (simp_all add: allow_cmds_def worker_ports_def)
  show ?thesis
    using a b by (simp add: allow_cmds_def master_ports_def lower_def)
qed

theorem firewall_configured_when_probe_silent_witness:
  "fst (exec sim_os (ssh_cmd setup0 (master_ip setup0) ''sudo ufw status'')
          (world (init_state sim_unreachable)))
     = (255, [], ''ssh: connect to host 10.0.0.1 port 22: Connection refused'')
   \<and> commands (trace (configure_firewall sim_os setup0 (init_state sim_unreachable))) =
        [ssh_cmd setup0 ''10.0.0.1'' ''sudo ufw status'',
         ssh_cmd setup0 ''10.0.0.1'' ''sudo ufw allow 6443/tcp'',
         ssh_cmd setup0 ''10.0.0.1'' ''sudo ufw allow 9345/tcp'',
         ssh_cmd setup0 ''10.0.0.1'' ''sudo ufw allow 10250/tcp'',
         ssh_cmd setup0 ''10.0.0.1'' ''sudo ufw allow 2379:2380/tcp'',
         ssh_cmd setup0 ''10.0.0.2'' ''sudo ufw allow 10250/tcp'',
         ssh_cmd setup0 ''10.0.0.2'' ''sudo ufw allow 30000:32767/tcp'']"
proof -
  have r: "fst (exec sim_os (ssh_cmd setup0 (master_ip setup0) ''sudo ufw status'')
          (world (init_state sim_unreachable)))
     = (255, [], ''ssh: connect to host 10.0.0.1 port 22: Connection refused'')"
    by (simp add: sim_defs sim_unreachable_def ssh_cmd_def)
  have h: "\<not> contains (lower (fst (snd (fst
              (exec sim_os (ssh_cmd setup0 (master_ip setup0) ''sudo ufw status'')
                 (world (init_state sim_unreachable))))))) ''inactive''"
    unfolding r by (simp add: lower_def)
  have m: "master_ip setup0 = ''10.0.0.1''" "worker_ips setup0 = [''10.0.0.2'']"
    by (simp_all add: setup0_def ClusterSetup_init_def)
  show ?thesis
    using r firewall_configured_when_probe_silent [OF h, THEN conjunct1]
    by (simp add: m allow_cmds_def master_ports_def worker_ports_def)
qed































lemma keyless_probes:
  "list_all (\<lambda>p. status_of p = 0 \<and> contains (stdout_of p) ''Connection successful'')
     (probes keyless_os self nodes w)"
  by (induction nodes arbitrary: w)
     (simp_all add: keyless_os_def calm_os_def status_of_def stdout_of_def)






end
